theory Spec2Isabelle
  imports Main "HOL-Library.Word" "HOL-Library.Sublist"
begin

section \<open>Errors\<close>

text \<open>
  Go's \<open>error\<close> values as they are built in \<open>esdb/client.go\<close>.
  \<^item> \<open>Errorf m c\<close> is \<open>fmt.Errorf\<close>: \<open>m\<close> is the formatted text that precedes the
    wrapped cause, \<open>c\<close> the cause given to a trailing \<open>%w\<close> (\<open>None\<close> when the format has
    no \<open>%w\<close>).
  \<^item> \<open>Error code err\<close> is \<open>&Error{code: code, err: err}\<close>.
  \<^item> \<open>EOF\<close> is \<open>io.EOF\<close>.
  \<^item> \<open>Foreign s\<close> is an error value made outside \<open>client.go\<close> (transport, codec).
  The declaration of \<open>ErrorCode\<close> is not part of \<open>client.go\<close>; the codes listed are the ones
  the file names, and the code of \<open>unsupportedFeatureError()\<close>.
\<close>

datatype ErrorCode =
    ErrorCodeUnknown
  | ErrorCodeUnsupportedFeature
  | ErrorCodeWrongExpectedVersion
  | ErrorCodeParsing

datatype error =
    Errorf string "error option"
  | Error ErrorCode "error option"
  | EOF
  | Foreign string

text \<open>
  Modelled from the spec: \<open>unsupportedFeatureError()\<close> is called by \<open>client.go\<close> and
  declared elsewhere. Section 7 of the specification names the error \<open>UnsupportedFeature\<close>;
  only its code is known, so the cause is left empty.
\<close>

definition unsupportedFeatureError :: error where
  "unsupportedFeatureError = Error ErrorCodeUnsupportedFeature None"

section \<open>Decimal rendering (\<open>strconv.Itoa\<close>)\<close>

definition digit :: "nat \<Rightarrow> char" where
  "digit d = ''0123456789'' ! d"

fun decimal :: "nat \<Rightarrow> string" where
  "decimal n = (if n < 10 then [digit n] else decimal (n div 10) @ [digit (n mod 10)])"

declare decimal.simps [simp del]

definition Itoa :: "int \<Rightarrow> string" where
  "Itoa i = (if i < 0 then CHR ''-'' # decimal (nat (- i)) else decimal (nat i))"

section \<open>Go's \<open>int\<close>\<close>

text \<open>
  The size of Go's \<open>int\<close> depends on the target the program is built for: 32 or 64 bits.
  The conversion \<open>int(x)\<close> of a \<open>uint64\<close> keeps the low bits of that size and reads them in
  two's complement. \<open>intBound\<close> is the first value that \<open>int\<close> cannot hold.
\<close>

datatype intSize = Bits32 | Bits64

definition goInt :: "intSize \<Rightarrow> 64 word \<Rightarrow> int" where
  "goInt bits x = (case bits of Bits32 \<Rightarrow> sint (ucast x :: 32 word) | Bits64 \<Rightarrow> sint x)"


section \<open>Wire messages of the streams service\<close>

text \<open>
  Modelled from the spec: the generated protobuf types of \<open>protos/streams\<close> are imported by
  \<open>client.go\<close> and not part of it. Their shape is the one \<open>client.go\<close> relies on (type
  switches over oneof wrappers, nil-safe getters) together with the specification's
  \<open>Success{current_revision?, position?}\<close> and \<open>WrongExpectedVersion{expected, current}\<close>
  with each side one of \<open>any | no_stream | stream_exists | <u64>\<close>. A oneof that is not
  set is \<open>None\<close>. A getter of a scalar returns the zero value when the oneof holds another
  variant or none.
\<close>

type_synonym uint64 = "64 word"

datatype AppendResp_Success_CurrentRevisionOption =
    AppendResp_Success_CurrentRevision uint64
  | AppendResp_Success_NoStream

record AppendResp_Position =
  CommitPosition :: uint64
  PreparePosition :: uint64

datatype AppendResp_Success_PositionOption =
    AppendResp_Success_Position AppendResp_Position
  | AppendResp_Success_NoPosition

datatype AppendResp_Success =
  AppendResp_Success
    (GetCurrentRevisionOption: "AppendResp_Success_CurrentRevisionOption option")
    (GetPositionOption: "AppendResp_Success_PositionOption option")

definition GetCurrentRevision :: "AppendResp_Success \<Rightarrow> uint64" where
  "GetCurrentRevision s =
     (case GetCurrentRevisionOption s of
        Some (AppendResp_Success_CurrentRevision r) \<Rightarrow> r
      | _ \<Rightarrow> 0)"

datatype AppendResp_WrongExpectedVersion_ExpectedRevisionOption =
    AppendResp_WrongExpectedVersion_ExpectedRevision uint64
  | AppendResp_WrongExpectedVersion_ExpectedAny
  | AppendResp_WrongExpectedVersion_ExpectedStreamExists
  | AppendResp_WrongExpectedVersion_ExpectedNoStream

datatype AppendResp_WrongExpectedVersion_CurrentRevisionOption =
    AppendResp_WrongExpectedVersion_CurrentRevision uint64
  | AppendResp_WrongExpectedVersion_CurrentNoStream

datatype AppendResp_WrongExpectedVersion =
  AppendResp_WrongExpectedVersion
    (GetExpectedRevisionOption: "AppendResp_WrongExpectedVersion_ExpectedRevisionOption option")
    (GetWrongCurrentRevisionOption: "AppendResp_WrongExpectedVersion_CurrentRevisionOption option")

definition GetExpectedAny :: "AppendResp_WrongExpectedVersion \<Rightarrow> unit option" where
  "GetExpectedAny w =
     (case GetExpectedRevisionOption w of
        Some AppendResp_WrongExpectedVersion_ExpectedAny \<Rightarrow> Some ()
      | _ \<Rightarrow> None)"

definition GetExpectedNoStream :: "AppendResp_WrongExpectedVersion \<Rightarrow> unit option" where
  "GetExpectedNoStream w =
     (case GetExpectedRevisionOption w of
        Some AppendResp_WrongExpectedVersion_ExpectedNoStream \<Rightarrow> Some ()
      | _ \<Rightarrow> None)"

definition GetExpectedStreamExists :: "AppendResp_WrongExpectedVersion \<Rightarrow> unit option" where
  "GetExpectedStreamExists w =
     (case GetExpectedRevisionOption w of
        Some AppendResp_WrongExpectedVersion_ExpectedStreamExists \<Rightarrow> Some ()
      | _ \<Rightarrow> None)"

definition GetExpectedRevision :: "AppendResp_WrongExpectedVersion \<Rightarrow> uint64" where
  "GetExpectedRevision w =
     (case GetExpectedRevisionOption w of
        Some (AppendResp_WrongExpectedVersion_ExpectedRevision r) \<Rightarrow> r
      | _ \<Rightarrow> 0)"

definition GetCurrentNoStream :: "AppendResp_WrongExpectedVersion \<Rightarrow> unit option" where
  "GetCurrentNoStream w =
     (case GetWrongCurrentRevisionOption w of
        Some AppendResp_WrongExpectedVersion_CurrentNoStream \<Rightarrow> Some ()
      | _ \<Rightarrow> None)"

definition GetWrongCurrentRevision :: "AppendResp_WrongExpectedVersion \<Rightarrow> uint64" where
  "GetWrongCurrentRevision w =
     (case GetWrongCurrentRevisionOption w of
        Some (AppendResp_WrongExpectedVersion_CurrentRevision r) \<Rightarrow> r
      | _ \<Rightarrow> 0)"

text \<open>
  The oneof wrappers \<open>AppendResp_Success_\<close> and \<open>AppendResp_WrongExpectedVersion_\<close> of
  the result carry the suffix \<open>Result\<close> here, since a name cannot end in an underscore.
\<close>

datatype AppendResp_Result =
    AppendResp_Success_Result AppendResp_Success
  | AppendResp_WrongExpectedVersion_Result AppendResp_WrongExpectedVersion

datatype AppendResp = AppendResp (GetResult: "AppendResp_Result option")

section \<open>Appending\<close>

record WriteResult =
  CommitPosition :: uint64
  PreparePosition :: uint64
  NextExpectedVersion :: uint64

text \<open>
  The text of \<open>fmt.Errorf("wrong expected version: expecting '%s' but got '%s'", expected,
  current)\<close>.
\<close>

definition wrongExpectedVersionText :: "string \<Rightarrow> string \<Rightarrow> string" where
  "wrongExpectedVersionText expected current =
     ''wrong expected version: expecting '' @ [CHR 0x27] @ expected @ [CHR 0x27]
       @ '' but got '' @ [CHR 0x27] @ current @ [CHR 0x27]"

text \<open>
  Lines 90 to 147 of \<open>AppendToStream\<close>: the decoding of the response that \<open>CloseAndRecv\<close>
  returned, on a target whose \<open>int\<close> has the size \<open>bits\<close>.
\<close>

definition appendResult :: "intSize \<Rightarrow> AppendResp \<Rightarrow> error + WriteResult" where
  "appendResult bits response =
     (case GetResult response of
        Some (AppendResp_Success_Result success) \<Rightarrow>
          (let streamRevision =
                 (case GetCurrentRevisionOption success of
                    Some AppendResp_Success_NoStream \<Rightarrow> 1
                  | _ \<Rightarrow> GetCurrentRevision success)
           in case GetPositionOption success of
                Some (AppendResp_Success_Position position) \<Rightarrow>
                  Inr \<lparr>CommitPosition = AppendResp_Position.CommitPosition position,
                       PreparePosition = AppendResp_Position.PreparePosition position,
                       NextExpectedVersion = streamRevision\<rparr>
              | _ \<Rightarrow>
                  Inr \<lparr>CommitPosition = 0,
                       PreparePosition = 0,
                       NextExpectedVersion = GetCurrentRevision success\<rparr>)
      | Some (AppendResp_WrongExpectedVersion_Result wrong) \<Rightarrow>
          (let expected =
                 (if GetExpectedAny wrong \<noteq> None then ''any''
                  else if GetExpectedNoStream wrong \<noteq> None then ''no_stream''
                  else if GetExpectedStreamExists wrong \<noteq> None then ''stream_exists''
                  else Itoa (goInt bits (GetExpectedRevision wrong)));
               current =
                 (if GetCurrentNoStream wrong \<noteq> None then ''no_stream''
                  else Itoa (goInt bits (GetWrongCurrentRevision wrong)))
           in Inl (Error ErrorCodeWrongExpectedVersion
                     (Some (Errorf (wrongExpectedVersionText expected current) None))))
      | None \<Rightarrow>
          Inr \<lparr>CommitPosition = 0, PreparePosition = 0, NextExpectedVersion = 1\<rparr>)"

section \<open>The client and its connection handle\<close>

text \<open>
  Modelled from the spec: \<open>connectionHandle\<close>, its method \<open>SupportsFeature\<close> and the feature
  constants are used by \<open>client.go\<close> and declared elsewhere. Section 3 of the specification
  gives the handle a set of feature bits, section 4.C names the bits; the two bits below are
  the ones \<open>client.go\<close> consults.
\<close>

datatype feature =
    featurePersistentSubscriptionToAll
  | featurePersistentSubscriptionManagement

record connectionHandle =
  features :: "feature set"

definition SupportsFeature :: "connectionHandle \<Rightarrow> feature \<Rightarrow> bool" where
  "SupportsFeature handle f = (f \<in> features handle)"

text \<open>
  What \<open>client.grpcClient\<close> answers during one operation: \<open>getConnectionHandle()\<close> returns
  an error or a handle, and \<open>handleError(handle, headers, trailers, err)\<close> turns a transport
  error into the error that is reported (headers and trailers are the metadata the call
  captured, they belong to the environment).
\<close>

record Client =
  getConnectionHandle :: "error + connectionHandle"
  handleError :: "connectionHandle \<Rightarrow> error \<Rightarrow> error"

section \<open>AppendToStream\<close>

text \<open>
  Modelled from the spec: \<open>EventData\<close>, \<open>ExpectedRevision\<close>, \<open>AppendToStreamOptions\<close> and the
  request frames are declared outside \<open>client.go\<close>. Section 3 gives an event the fields id,
  type, content type, data and metadata, and the expected revision the four variants below;
  section 4.E gives the header frame the fields stream id and expected revision.
  \<open>toAppendHeader(streamID, revision)\<close> is the header frame \<open>AppendReq_Options streamID
  revision\<close>. The zero value of \<open>EventData\<close> has the id 0 and empty payloads.
\<close>

datatype ContentType = ContentTypeJson | ContentTypeOctetStream

record EventData =
  EventID :: "128 word"
  EventType :: string
  ContentType :: ContentType
  Data :: "8 word list"
  Metadata :: "8 word list"

datatype ExpectedRevision = Any | NoStream | StreamExists | Revision uint64

record AppendToStreamOptions =
  ExpectedRevision :: ExpectedRevision

datatype 'pm AppendReq =
    AppendReq_Options string ExpectedRevision
  | AppendReq_ProposedMessage 'pm

definition toAppendHeader :: "string \<Rightarrow> ExpectedRevision \<Rightarrow> 'pm AppendReq" where
  "toAppendHeader streamID revision = AppendReq_Options streamID revision"

text \<open>
  What the callees of \<open>AppendToStream\<close> outside \<open>client.go\<close> do during one call:
  \<^item> \<open>setDefaults\<close> is \<open>opts.setDefaults()\<close>, \<open>toProposedMessage\<close> builds the payload of a
    proposed-message frame from an event;
  \<^item> \<open>Append\<close> is the error of \<open>streamsClient.Append\<close> (\<open>None\<close>: the stream is open);
  \<^item> \<open>Send k\<close> is the error of the \<open>k\<close>-th call of \<open>appendOperation.Send\<close>, counted from 0;
  \<^item> \<open>CloseAndRecv\<close> is the outcome of \<open>appendOperation.CloseAndRecv()\<close>;
  \<^item> \<open>intSize\<close> is the size of \<open>int\<close> on the target the call runs on.
\<close>

record 'pm AppendOperation =
  setDefaults :: "AppendToStreamOptions \<Rightarrow> AppendToStreamOptions"
  toProposedMessage :: "EventData \<Rightarrow> 'pm"
  Append :: "error option"
  Send :: "nat \<Rightarrow> error option"
  CloseAndRecv :: "error + AppendResp"
  intSize :: intSize

text \<open>
  What went over the stream, in order: \<open>Sent f\<close> for a frame whose \<open>Send\<close> returned no
  error, \<open>HalfClosed\<close> for the call of \<open>CloseAndRecv\<close>, which closes the sending side and then
  waits for the response.
\<close>

datatype 'pm wire = Sent "'pm AppendReq" | HalfClosed

text \<open>The loop of lines 72 to 83; \<open>k\<close> counts the calls of \<open>Send\<close> made so far.\<close>

fun sendEvents ::
  "Client \<Rightarrow> 'pm AppendOperation \<Rightarrow> connectionHandle \<Rightarrow> nat \<Rightarrow> EventData list \<Rightarrow>
   'pm wire list \<Rightarrow> error option \<times> 'pm wire list"
where
  "sendEvents client operation handle k [] sent = (None, sent)"
| "sendEvents client operation handle k (event # events) sent =
     (let appendRequest = AppendReq_ProposedMessage (toProposedMessage operation event)
      in case Send operation k of
           Some err \<Rightarrow>
             (Some (Errorf ''could not send append request. Reason: ''
                      (Some (handleError client handle err))), sent)
         | None \<Rightarrow>
             sendEvents client operation handle (Suc k) events (sent @ [Sent appendRequest]))"

text \<open>
  \<open>AppendToStream\<close> returns the pair of Go results as a sum (\<open>Inl\<close>: the error, with a nil
  result) together with what went over the stream. \<open>configureGrpcCall\<close> sets the deadline and
  the credentials of the call and sends nothing.
\<close>

definition AppendToStream ::
  "Client \<Rightarrow> 'pm AppendOperation \<Rightarrow> string \<Rightarrow> AppendToStreamOptions \<Rightarrow> EventData list \<Rightarrow>
   (error + WriteResult) \<times> 'pm wire list"
where
  "AppendToStream client operation streamID opts0 events =
     (let opts = setDefaults operation opts0
      in case getConnectionHandle client of
           Inl err \<Rightarrow> (Inl err, [])
         | Inr handle \<Rightarrow>
             (case Append operation of
                Some err \<Rightarrow>
                  (Inl (Errorf ''could not construct append operation. Reason: ''
                          (Some (handleError client handle err))), [])
              | None \<Rightarrow>
                  (let header = toAppendHeader streamID (ExpectedRevision opts)
                   in case Send operation 0 of
                        Some err \<Rightarrow>
                          (Inl (Errorf ''could not send append request header. Reason: ''
                                  (Some (handleError client handle err))), [])
                      | None \<Rightarrow>
                          (case sendEvents client operation handle 1 events [Sent header] of
                             (Some err, sent) \<Rightarrow> (Inl err, sent)
                           | (None, sent) \<Rightarrow>
                               (case CloseAndRecv operation of
                                  Inl err \<Rightarrow>
                                    (Inl (handleError client handle err), sent @ [HalfClosed])
                                | Inr response \<Rightarrow>
                                    (appendResult (intSize operation) response,
                                     sent @ [HalfClosed]))))))"

text \<open>The frames of the events, in the order of the event list.\<close>

definition proposed :: "'pm AppendOperation \<Rightarrow> EventData list \<Rightarrow> 'pm wire list" where
  "proposed operation events =
     map (\<lambda>event. Sent (AppendReq_ProposedMessage (toProposedMessage operation event))) events"

text \<open>
  A call receives \<open>response\<close> when the handle is obtained, the stream is opened, the header
  and every event are sent without error, and \<open>CloseAndRecv\<close> returns \<open>response\<close>.
\<close>

definition receives ::
  "Client \<Rightarrow> 'pm AppendOperation \<Rightarrow> EventData list \<Rightarrow> AppendResp \<Rightarrow> bool"
where
  "receives client operation events response \<longleftrightarrow>
     \<not> isl (getConnectionHandle client) \<and> Append operation = None \<and>
     (\<forall>k \<le> length events. Send operation k = None) \<and>
     CloseAndRecv operation = Inr response"

subsection \<open>The specification's reading of a wrong-expected-version message\<close>





section \<open>Persistent subscriptions\<close>

text \<open>
  Every operation of this part ends either in a \<open>return\<close> of an error made in \<open>client.go\<close>
  or in a \<open>return\<close> of the results of one call outside \<open>client.go\<close>; dereferencing a nil
  pointer panics.
  \<^item> \<open>Return err\<close>: the operation returns \<open>err\<close> and has made no call.
  \<^item> \<open>Invoke c\<close>: the operation makes the call \<open>c\<close> and returns its results.
  \<^item> \<open>NilPointerDereference\<close>: the run-time panic of \<open>*p\<close> for a nil \<open>p\<close>.
  Every call also receives the context, the configuration and the handle, which are left
  out of the call values.
\<close>

datatype 'c dispatch = Return error | Invoke 'c | NilPointerDereference

text \<open>
  The option structs are declared outside \<open>client.go\<close>. A struct of which \<open>client.go\<close>
  reads no field is a type variable; of the others the fields that \<open>client.go\<close> reads are
  modelled. The settings (\<open>'s\<close>), the start position (\<open>'p\<close>) and the filter (\<open>'f\<close>) are
  passed on unread; the literal of \<open>SubscriptionFilterOptions\<close> in
  \<open>CreatePersistentSubscriptionToAll\<close> leaves the checkpoint interval at its zero value.
  \<open>PersistentAllSubscriptionOptions\<close> is written as an extension of
  \<open>PersistentStreamSubscriptionOptions\<close> to share the field names \<open>Settings\<close> and
  \<open>StartFrom\<close>. \<open>int32(options.BufferSize)\<close> keeps the 32 bits of the buffer size.
\<close>

record SubscribeToPersistentSubscriptionOptions =
  BufferSize :: "32 word"

record ('s, 'p) PersistentStreamSubscriptionOptions =
  Settings :: "'s option"
  StartFrom :: 'p

record ('s, 'p, 'f) PersistentAllSubscriptionOptions =
  "('s, 'p) PersistentStreamSubscriptionOptions" +
  Filter :: "'f option"
  MaxSearchWindow :: int

datatype 'f SubscriptionFilterOptions =
  SubscriptionFilterOptions
    (FilterMaxSearchWindow: int) (FilterCheckpointInterval: int) (SubscriptionFilter: 'f)

text \<open>
  The functions of the package that the operations call before they dispatch:
  \<open>options.setDefaults()\<close> of the three option structs and \<open>SubscriptionSettingsDefault()\<close>.
\<close>

record ('s, 'p, 'f) Defaults =
  setDefaultsSubscribe ::
    "SubscribeToPersistentSubscriptionOptions \<Rightarrow> SubscribeToPersistentSubscriptionOptions"
  setDefaultsStream ::
    "('s, 'p) PersistentStreamSubscriptionOptions \<Rightarrow> ('s, 'p) PersistentStreamSubscriptionOptions"
  setDefaultsAll ::
    "('s, 'p, 'f) PersistentAllSubscriptionOptions \<Rightarrow> ('s, 'p, 'f) PersistentAllSubscriptionOptions"
  SubscriptionSettingsDefault :: 's

subsection \<open>Connecting\<close>

datatype connectCall =
  persistentClient_ConnectToPersistentSubscription
    SubscribeToPersistentSubscriptionOptions "32 word" string string

definition SubscribeToPersistentSubscription ::
  "Client \<Rightarrow> ('s, 'p, 'f) Defaults \<Rightarrow> string \<Rightarrow> string \<Rightarrow>
   SubscribeToPersistentSubscriptionOptions \<Rightarrow> connectCall dispatch"
where
  "SubscribeToPersistentSubscription client defaults streamName groupName options0 =
     (let options = setDefaultsSubscribe defaults options0
      in case getConnectionHandle client of
           Inl err \<Rightarrow> Return err
         | Inr handle \<Rightarrow>
             Invoke (persistentClient_ConnectToPersistentSubscription
                       options (BufferSize options) streamName groupName))"

definition SubscribeToPersistentSubscriptionToAll ::
  "Client \<Rightarrow> ('s, 'p, 'f) Defaults \<Rightarrow> string \<Rightarrow>
   SubscribeToPersistentSubscriptionOptions \<Rightarrow> connectCall dispatch"
where
  "SubscribeToPersistentSubscriptionToAll client defaults groupName options0 =
     (let options = setDefaultsSubscribe defaults options0
      in case getConnectionHandle client of
           Inl err \<Rightarrow> Return err
         | Inr handle \<Rightarrow>
             if \<not> SupportsFeature handle featurePersistentSubscriptionToAll
             then Return unsupportedFeatureError
             else Invoke (persistentClient_ConnectToPersistentSubscription
                            options (BufferSize options) [] groupName))"

subsection \<open>Creating and updating\<close>

datatype ('s, 'p, 'f) settingsCall =
    persistentClient_CreateStreamSubscription
      "('s, 'p) PersistentStreamSubscriptionOptions" string string 'p 's
  | persistentClient_CreateAllSubscription
      "('s, 'p, 'f) PersistentAllSubscriptionOptions" string 'p 's
      "'f SubscriptionFilterOptions option"
  | persistentClient_UpdateStreamSubscription
      "('s, 'p) PersistentStreamSubscriptionOptions" string string 'p 's
  | persistentClient_UpdateAllSubscription
      "('s, 'p, 'f) PersistentAllSubscriptionOptions" string 'p 's

definition CreatePersistentSubscription ::
  "Client \<Rightarrow> ('s, 'p, 'f) Defaults \<Rightarrow> string \<Rightarrow> string \<Rightarrow>
   ('s, 'p) PersistentStreamSubscriptionOptions \<Rightarrow> ('s, 'p, 'f) settingsCall dispatch"
where
  "CreatePersistentSubscription client defaults streamName groupName options0 =
     (let options1 = setDefaultsStream defaults options0
      in case getConnectionHandle client of
           Inl err \<Rightarrow> Return err
         | Inr handle \<Rightarrow>
             (let options =
                    (if Settings options1 = None
                     then options1\<lparr>Settings := Some (SubscriptionSettingsDefault defaults)\<rparr>
                     else options1)
              in case Settings options of
                   None \<Rightarrow> NilPointerDereference
                 | Some settings \<Rightarrow>
                     Invoke (persistentClient_CreateStreamSubscription
                               options streamName groupName (StartFrom options) settings)))"

definition CreatePersistentSubscriptionToAll ::
  "Client \<Rightarrow> ('s, 'p, 'f) Defaults \<Rightarrow> string \<Rightarrow>
   ('s, 'p, 'f) PersistentAllSubscriptionOptions \<Rightarrow> ('s, 'p, 'f) settingsCall dispatch"
where
  "CreatePersistentSubscriptionToAll client defaults groupName options0 =
     (let options1 = setDefaultsAll defaults options0
      in case getConnectionHandle client of
           Inl err \<Rightarrow> Return err
         | Inr handle \<Rightarrow>
             if \<not> SupportsFeature handle featurePersistentSubscriptionToAll
             then Return unsupportedFeatureError
             else
               (let filterOptions =
                      (case Filter options1 of
                         None \<Rightarrow> None
                       | Some f \<Rightarrow>
                           Some (SubscriptionFilterOptions (MaxSearchWindow options1) 0 f));
                    options =
                      (if Settings options1 = None
                       then options1\<lparr>Settings := Some (SubscriptionSettingsDefault defaults)\<rparr>
                       else options1)
                in case Settings options of
                     None \<Rightarrow> NilPointerDereference
                   | Some settings \<Rightarrow>
                       Invoke (persistentClient_CreateAllSubscription
                                 options groupName (StartFrom options) settings filterOptions)))"

definition UpdatePersistentSubscription ::
  "Client \<Rightarrow> ('s, 'p, 'f) Defaults \<Rightarrow> string \<Rightarrow> string \<Rightarrow>
   ('s, 'p) PersistentStreamSubscriptionOptions \<Rightarrow> ('s, 'p, 'f) settingsCall dispatch"
where
  "UpdatePersistentSubscription client defaults streamName groupName options0 =
     (let options1 = setDefaultsStream defaults options0
      in case getConnectionHandle client of
           Inl err \<Rightarrow> Return err
         | Inr handle \<Rightarrow>
             (let options =
                    (if Settings options1 = None
                     then options1\<lparr>Settings := Some (SubscriptionSettingsDefault defaults)\<rparr>
                     else options1)
              in case Settings options of
                   None \<Rightarrow> NilPointerDereference
                 | Some settings \<Rightarrow>
                     Invoke (persistentClient_UpdateStreamSubscription
                               options streamName groupName (StartFrom options) settings)))"

definition UpdatePersistentSubscriptionToAll ::
  "Client \<Rightarrow> ('s, 'p, 'f) Defaults \<Rightarrow> string \<Rightarrow>
   ('s, 'p, 'f) PersistentAllSubscriptionOptions \<Rightarrow> ('s, 'p, 'f) settingsCall dispatch"
where
  "UpdatePersistentSubscriptionToAll client defaults groupName options0 =
     (let options = setDefaultsAll defaults options0
      in case getConnectionHandle client of
           Inl err \<Rightarrow> Return err
         | Inr handle \<Rightarrow>
             if \<not> SupportsFeature handle featurePersistentSubscriptionToAll
             then Return unsupportedFeatureError
             else
               (case Settings options of
                  None \<Rightarrow> NilPointerDereference
                | Some settings \<Rightarrow>
                    Invoke (persistentClient_UpdateAllSubscription
                              options groupName (StartFrom options) settings)))"

subsection \<open>Deleting\<close>

datatype 'o deleteCall =
    persistentClient_DeleteStreamSubscription 'o string string
  | persistentClient_DeleteAllSubscription 'o string

definition DeletePersistentSubscription ::
  "Client \<Rightarrow> string \<Rightarrow> string \<Rightarrow> 'o \<Rightarrow> 'o deleteCall dispatch"
where
  "DeletePersistentSubscription client streamName groupName options =
     (case getConnectionHandle client of
        Inl err \<Rightarrow> Return err
      | Inr handle \<Rightarrow>
          Invoke (persistentClient_DeleteStreamSubscription options streamName groupName))"

definition DeletePersistentSubscriptionToAll ::
  "Client \<Rightarrow> string \<Rightarrow> 'o \<Rightarrow> 'o deleteCall dispatch"
where
  "DeletePersistentSubscriptionToAll client groupName options =
     (case getConnectionHandle client of
        Inl err \<Rightarrow> Return err
      | Inr handle \<Rightarrow>
          if \<not> SupportsFeature handle featurePersistentSubscriptionToAll
          then Return unsupportedFeatureError
          else Invoke (persistentClient_DeleteAllSubscription options groupName))"

subsection \<open>Management: replay parked messages, list, get info, restart\<close>

text \<open>
  The calls of the \<open>persistentClient\<close> go over gRPC, the \<open>http\<close> methods of the client go to
  the HTTP admin interface.
\<close>

datatype 'o managementCall =
    persistentClient_replayParkedMessages "string option" string 'o
  | httpReplayParkedMessages string string 'o
  | persistentClient_listPersistentSubscriptions "string option" 'o
  | httpListPersistentSubscriptionsForStream string 'o
  | httpListAllPersistentSubscriptions 'o
  | persistentClient_getPersistentSubscriptionInfo "string option" string 'o
  | httpGetPersistentSubscriptionInfo string string 'o
  | persistentClient_restartSubsystem 'o
  | httpRestartSubsystem 'o

definition replayParkedMessages ::
  "Client \<Rightarrow> string \<Rightarrow> string \<Rightarrow> 'o \<Rightarrow> 'o managementCall dispatch"
where
  "replayParkedMessages client streamName groupName options =
     (case getConnectionHandle client of
        Inl err \<Rightarrow> Return err
      | Inr handle \<Rightarrow>
          (let finalStreamName = (if streamName \<noteq> ''$all'' then Some streamName else None)
           in if finalStreamName = None
                 \<and> \<not> SupportsFeature handle featurePersistentSubscriptionToAll
              then Return unsupportedFeatureError
              else if SupportsFeature handle featurePersistentSubscriptionManagement
              then Invoke (persistentClient_replayParkedMessages finalStreamName groupName options)
              else Invoke (httpReplayParkedMessages streamName groupName options)))"

definition ReplayParkedMessages ::
  "Client \<Rightarrow> string \<Rightarrow> string \<Rightarrow> 'o \<Rightarrow> 'o managementCall dispatch"
where
  "ReplayParkedMessages client streamName groupName options =
     replayParkedMessages client streamName groupName options"

definition ReplayParkedMessagesToAll ::
  "Client \<Rightarrow> string \<Rightarrow> 'o \<Rightarrow> 'o managementCall dispatch"
where
  "ReplayParkedMessagesToAll client groupName options =
     replayParkedMessages client ''$all'' groupName options"

definition listPersistentSubscriptionsInternal ::
  "Client \<Rightarrow> string option \<Rightarrow> 'o \<Rightarrow> 'o managementCall dispatch"
where
  "listPersistentSubscriptionsInternal client streamName options =
     (case getConnectionHandle client of
        Inl err \<Rightarrow> Return err
      | Inr handle \<Rightarrow>
          if streamName \<noteq> None \<and> streamName = Some ''$all''
             \<and> \<not> SupportsFeature handle featurePersistentSubscriptionToAll
          then Return unsupportedFeatureError
          else if SupportsFeature handle featurePersistentSubscriptionManagement
          then Invoke (persistentClient_listPersistentSubscriptions streamName options)
          else (case streamName of
                  Some name \<Rightarrow> Invoke (httpListPersistentSubscriptionsForStream name options)
                | None \<Rightarrow> Invoke (httpListAllPersistentSubscriptions options)))"

definition ListAllPersistentSubscriptions ::
  "Client \<Rightarrow> 'o \<Rightarrow> 'o managementCall dispatch"
where
  "ListAllPersistentSubscriptions client options =
     listPersistentSubscriptionsInternal client None options"

definition ListPersistentSubscriptionsForStream ::
  "Client \<Rightarrow> string \<Rightarrow> 'o \<Rightarrow> 'o managementCall dispatch"
where
  "ListPersistentSubscriptionsForStream client streamName options =
     listPersistentSubscriptionsInternal client (Some streamName) options"

definition ListPersistentSubscriptionsToAll ::
  "Client \<Rightarrow> 'o \<Rightarrow> 'o managementCall dispatch"
where
  "ListPersistentSubscriptionsToAll client options =
     (let streamName = ''$all''
      in listPersistentSubscriptionsInternal client (Some streamName) options)"

definition getPersistentSubscriptionInfoInternal ::
  "Client \<Rightarrow> string option \<Rightarrow> string \<Rightarrow> 'o \<Rightarrow> 'o managementCall dispatch"
where
  "getPersistentSubscriptionInfoInternal client streamName groupName options =
     (case getConnectionHandle client of
        Inl err \<Rightarrow> Return err
      | Inr handle \<Rightarrow>
          if streamName \<noteq> None \<and> streamName = Some ''$all''
             \<and> \<not> SupportsFeature handle featurePersistentSubscriptionToAll
          then Return unsupportedFeatureError
          else if SupportsFeature handle featurePersistentSubscriptionManagement
          then Invoke (persistentClient_getPersistentSubscriptionInfo streamName groupName options)
          else (let name = (case streamName of None \<Rightarrow> ''$all'' | Some n \<Rightarrow> n)
                in Invoke (httpGetPersistentSubscriptionInfo name groupName options)))"

definition GetPersistentSubscriptionInfo ::
  "Client \<Rightarrow> string \<Rightarrow> string \<Rightarrow> 'o \<Rightarrow> 'o managementCall dispatch"
where
  "GetPersistentSubscriptionInfo client streamName groupName options =
     getPersistentSubscriptionInfoInternal client (Some streamName) groupName options"

definition GetPersistentSubscriptionInfoToAll ::
  "Client \<Rightarrow> string \<Rightarrow> 'o \<Rightarrow> 'o managementCall dispatch"
where
  "GetPersistentSubscriptionInfoToAll client groupName options =
     getPersistentSubscriptionInfoInternal client None groupName options"

definition RestartPersistentSubscriptionSubsystem ::
  "Client \<Rightarrow> 'o \<Rightarrow> 'o managementCall dispatch"
where
  "RestartPersistentSubscriptionSubsystem client options =
     (case getConnectionHandle client of
        Inl err \<Rightarrow> Return err
      | Inr handle \<Rightarrow>
          if SupportsFeature handle featurePersistentSubscriptionManagement
          then Invoke (persistentClient_restartSubsystem options)
          else Invoke (httpRestartSubsystem options))"

text \<open>The path a management call takes, and the path an operation ends in, if any.\<close>

datatype path = GRPC | HTTP

fun pathOf :: "'o managementCall \<Rightarrow> path" where
  "pathOf (persistentClient_replayParkedMessages streamName groupName options) = GRPC"
| "pathOf (httpReplayParkedMessages streamName groupName options) = HTTP"
| "pathOf (persistentClient_listPersistentSubscriptions streamName options) = GRPC"
| "pathOf (httpListPersistentSubscriptionsForStream streamName options) = HTTP"
| "pathOf (httpListAllPersistentSubscriptions options) = HTTP"
| "pathOf (persistentClient_getPersistentSubscriptionInfo streamName groupName options) = GRPC"
| "pathOf (httpGetPersistentSubscriptionInfo streamName groupName options) = HTTP"
| "pathOf (persistentClient_restartSubsystem options) = GRPC"
| "pathOf (httpRestartSubsystem options) = HTTP"

fun dispatched :: "'o managementCall dispatch \<Rightarrow> path option" where
  "dispatched (Invoke c) = Some (pathOf c)"
| "dispatched (Return err) = None"
| "dispatched NilPointerDereference = None"

section \<open>Stream metadata\<close>

text \<open>
  Modelled from the spec: \<open>StreamMetadata\<close> is declared outside \<open>client.go\<close>. Section 3 of
  the specification lists its recognised keys (\<open>$maxAge\<close>, \<open>$maxCount\<close>, \<open>$tb\<close>,
  \<open>$cacheControl\<close>, \<open>$acl\<close>) and allows arbitrary custom keys; \<open>'v\<close> is the type of a JSON
  value. \<open>emptyStreamMetadata\<close> is the zero value \<open>StreamMetadata{}\<close>: no key is set.
\<close>

record 'v StreamMetadata =
  maxAge :: "int option"
  maxCount :: "32 word option"
  truncateBefore :: "uint64 option"
  cacheControl :: "int option"
  acl :: "'v option"
  customProperties :: "string \<rightharpoonup> 'v"

definition emptyStreamMetadata :: "'v StreamMetadata" where
  "emptyStreamMetadata =
     \<lparr>maxAge = None, maxCount = None, truncateBefore = None, cacheControl = None,
      acl = None, customProperties = Map.empty\<rparr>"

text \<open>
  Modelled from the spec: the \<open>Unwrap\<close> method of \<open>*Error\<close> is declared outside
  \<open>client.go\<close>; by section 7 every error carries its cause chain, so an \<open>Error\<close> unwraps
  to its cause as an \<open>Errorf\<close> with \<open>%w\<close> does. \<open>errors.Is(err, target)\<close> follows the
  chain of causes.
\<close>

fun errorsIs :: "error \<Rightarrow> error \<Rightarrow> bool" where
  "errorsIs (Errorf m cause) target =
     (Errorf m cause = target \<or> (case cause of None \<Rightarrow> False | Some e \<Rightarrow> errorsIs e target))"
| "errorsIs (Error code cause) target =
     (Error code cause = target \<or> (case cause of None \<Rightarrow> False | Some e \<Rightarrow> errorsIs e target))"
| "errorsIs EOF target = (EOF = target)"
| "errorsIs (Foreign s) target = (Foreign s = target)"

subsection \<open>Writing\<close>

text \<open>
  \<open>metadata.toMap()\<close> and \<open>json.Marshal\<close> are declared outside \<open>client.go\<close>; each returns
  an error or a value. The properties are a \<open>map[string]interface{}\<close>.
\<close>

record 'v Encoder =
  toMap :: "'v StreamMetadata \<Rightarrow> error + (string \<rightharpoonup> 'v)"
  Marshal :: "(string \<rightharpoonup> 'v) \<Rightarrow> error + 8 word list"

definition SetStreamMetadata ::
  "Client \<Rightarrow> 'pm AppendOperation \<Rightarrow> 'v Encoder \<Rightarrow> string \<Rightarrow> AppendToStreamOptions \<Rightarrow>
   'v StreamMetadata \<Rightarrow> (error + WriteResult) \<times> 'pm wire list"
where
  "SetStreamMetadata client operation encoder streamID opts metadata =
     (let streamName = ''$$'' @ streamID
      in case toMap encoder metadata of
           Inl err \<Rightarrow> (Inl (Errorf ''error when serializing stream metadata: '' (Some err)), [])
         | Inr props \<Rightarrow>
             (case Marshal encoder props of
                Inl err \<Rightarrow>
                  (Inl (Errorf ''error when serializing stream metadata: '' (Some err)), [])
              | Inr data \<Rightarrow>
                  (case AppendToStream client operation streamName opts
                          [\<lparr>EventID = 0, EventType = ''$metadata'',
                            ContentType = ContentTypeJson, Data = data, Metadata = []\<rparr>] of
                     (Inl err, sent) \<Rightarrow> (Inl err, sent)
                   | (Inr result, sent) \<Rightarrow> (Inr result, sent))))"

subsection \<open>Reading\<close>

text \<open>
  The options of a read carry the direction (\<open>'d\<close>) and the start position (\<open>'p\<close>), which are
  passed on unread. \<open>toReadStreamRequest\<close> collects its five arguments into the request;
  \<open>newReadStream\<close> keeps the handle and the stream that \<open>streamsClient.Read\<close> opened for the
  request.
\<close>

record ('d, 'p) ReadStreamOptions =
  Direction :: 'd
  From :: 'p
  ResolveLinkTos :: bool

datatype ('d, 'p) ReadReq = toReadStreamRequest string 'd 'p uint64 bool

datatype ('d, 'p) ReadStream = newReadStream connectionHandle "('d, 'p) ReadReq"

text \<open>
  What the callees of \<open>GetStreamMetadata\<close> outside \<open>client.go\<close> do during one call:
  \<^item> \<open>setDefaultsRead\<close> is \<open>opts.setDefaults()\<close>;
  \<^item> \<open>Read\<close> is the error of \<open>streamsClient.Read\<close> for a request (\<open>None\<close>: the stream is open);
  \<^item> \<open>FromError\<close> is the package function of that name, from an error or nil to an
    \<open>*Error\<close> or nil and a flag;
  \<^item> \<open>Recv\<close> is the first \<open>stream.Recv()\<close>, for the stream pointer it is called on;
  \<^item> \<open>OriginalEventData\<close> is \<open>event.OriginalEvent().Data\<close>;
  \<^item> \<open>Unmarshal\<close> is \<open>json.Unmarshal\<close> into a \<open>map[string]interface{}\<close>;
  \<^item> \<open>streamMetadataFromMap\<close> is the package function of that name.
\<close>

record ('d, 'p, 'ev, 'v) ReadOperation =
  setDefaultsRead :: "('d, 'p) ReadStreamOptions \<Rightarrow> ('d, 'p) ReadStreamOptions"
  Read :: "('d, 'p) ReadReq \<Rightarrow> error option"
  FromError :: "error option \<Rightarrow> error option \<times> bool"
  Recv :: "('d, 'p) ReadStream option \<Rightarrow> error + 'ev"
  OriginalEventData :: "'ev \<Rightarrow> 8 word list"
  Unmarshal :: "8 word list \<Rightarrow> error + (string \<rightharpoonup> 'v)"
  streamMetadataFromMap :: "(string \<rightharpoonup> 'v) \<Rightarrow> error + 'v StreamMetadata"

definition readInternal ::
  "Client \<Rightarrow> ('d, 'p, 'ev, 'v) ReadOperation \<Rightarrow> connectionHandle \<Rightarrow> ('d, 'p) ReadReq \<Rightarrow>
   error + ('d, 'p) ReadStream"
where
  "readInternal client operation handle readRequest =
     (case Read operation readRequest of
        Some err \<Rightarrow>
          Inl (Error ErrorCodeUnknown
                 (Some (Errorf ''failed to construct read stream. Reason: ''
                          (Some (handleError client handle err)))))
      | None \<Rightarrow> Inr (newReadStream handle readRequest))"

definition ReadStream ::
  "Client \<Rightarrow> ('d, 'p, 'ev, 'v) ReadOperation \<Rightarrow> string \<Rightarrow> ('d, 'p) ReadStreamOptions \<Rightarrow>
   uint64 \<Rightarrow> error + ('d, 'p) ReadStream"
where
  "ReadStream client operation streamID opts0 count =
     (let opts = setDefaultsRead operation opts0;
          readRequest =
            toReadStreamRequest streamID (Direction opts) (From opts) count (ResolveLinkTos opts)
      in case getConnectionHandle client of
           Inl err \<Rightarrow> Inl err
         | Inr handle \<Rightarrow> readInternal client operation handle readRequest)"

text \<open>
  \<open>GetStreamMetadata\<close> returns Go's pair: the metadata pointer and the error, each nil
  (\<open>None\<close>) or set. The deferred \<open>stream.Close()\<close> does not change the results.
\<close>

definition GetStreamMetadata ::
  "Client \<Rightarrow> ('d, 'p, 'ev, 'v) ReadOperation \<Rightarrow> string \<Rightarrow> ('d, 'p) ReadStreamOptions \<Rightarrow>
   'v StreamMetadata option \<times> error option"
where
  "GetStreamMetadata client operation streamID opts =
     (let streamName = ''$$'' @ streamID;
          (stream, err) =
            (case ReadStream client operation streamName opts 1 of
               Inl e \<Rightarrow> (None, Some e)
             | Inr s \<Rightarrow> (Some s, None))
      in case FromError operation err of
           (esdbErr, ok) \<Rightarrow>
             if \<not> ok then (None, esdbErr)
             else
               (case Recv operation stream of
                  Inl err \<Rightarrow>
                    if errorsIs err EOF then (Some emptyStreamMetadata, None)
                    else (None, Some (Errorf ''unexpected error when reading stream metadata: ''
                                        (Some err)))
                | Inr event \<Rightarrow>
                    (case Unmarshal operation (OriginalEventData operation event) of
                       Inl err \<Rightarrow>
                         (None, Some (Error ErrorCodeParsing
                            (Some (Errorf ''error when deserializing stream metadata json: ''
                                     (Some err)))))
                     | Inr props \<Rightarrow>
                         (case streamMetadataFromMap operation props of
                            Inl err \<Rightarrow>
                              (None, Some (Error ErrorCodeParsing
                                 (Some (Errorf ''error when parsing stream metadata json: ''
                                          (Some err)))))
                          | Inr meta \<Rightarrow> (Some meta, None)))))"

section \<open>Concrete runs\<close>

text \<open>
  A client whose handle has the feature set \<open>fs\<close>, an append stream on a 64-bit target on
  which the sends answer \<open>send\<close> and the response is \<open>response\<close>, defaults that change
  nothing, and a read whose first \<open>Recv\<close> answers \<open>first\<close>.
\<close>

definition exampleClient :: "feature set \<Rightarrow> Client" where
  "exampleClient fs =
     \<lparr>getConnectionHandle = Inr \<lparr>features = fs\<rparr>, handleError = (\<lambda>handle err. err)\<rparr>"

definition exampleOperation ::
  "(nat \<Rightarrow> error option) \<Rightarrow> AppendResp \<Rightarrow> EventData AppendOperation"
where
  "exampleOperation send response =
     \<lparr>setDefaults = (\<lambda>opts. opts), toProposedMessage = (\<lambda>event. event), Append = None,
      Send = send, CloseAndRecv = Inr response, intSize = Bits64\<rparr>"

definition exampleEvent :: "string \<Rightarrow> EventData" where
  "exampleEvent t =
     \<lparr>EventID = 1, EventType = t, ContentType = ContentTypeJson, Data = [], Metadata = []\<rparr>"

definition exampleDefaults :: "(nat, nat, nat) Defaults" where
  "exampleDefaults =
     \<lparr>setDefaultsSubscribe = (\<lambda>options. options), setDefaultsStream = (\<lambda>options. options),
      setDefaultsAll = (\<lambda>options. options), SubscriptionSettingsDefault = 7\<rparr>"

definition exampleRead :: "(error + nat) \<Rightarrow> (nat, nat, nat, nat) ReadOperation" where
  "exampleRead first =
     \<lparr>setDefaultsRead = (\<lambda>opts. opts), Read = (\<lambda>request. None),
      FromError = (\<lambda>err. case err of None \<Rightarrow> (None, True) | Some e \<Rightarrow> (Some e, False)),
      Recv = (\<lambda>stream. first), OriginalEventData = (\<lambda>event. []),
      Unmarshal = (\<lambda>data. Inr Map.empty),
      streamMetadataFromMap = (\<lambda>props. Inr emptyStreamMetadata)\<rparr>"

section \<open>Properties of AppendToStream\<close>

subsection \<open>The frames of a call\<close>

lemma sendEvents_all_sent:
  "(\<forall>i < length events. Send operation (k + i) = None) \<Longrightarrow>
   sendEvents client operation handle k events sent = (None, sent @ proposed operation events)"
proof (induction events arbitrary: k sent)
  case Nil
  then show ?case by (simp add: proposed_def)
next
  case (Cons event events)
  have head: "Send operation k = None"
    using Cons.prems [rule_format, of 0] by simp
  have tail: "\<forall>i < length events. Send operation (Suc k + i) = None"
    using Cons.prems [rule_format, of "Suc i" for i] by simp
  show ?case
    using Cons.IH [OF tail] head by (simp add: proposed_def)
qed

lemma sendEvents_sent_some:
  "\<exists>n. snd (sendEvents client operation handle k events sent) =
     sent @ take n (proposed operation events)"
proof (induction events arbitrary: k sent)
  case Nil
  then show ?case by (simp add: proposed_def)
next
  case (Cons event events)
  let ?frame = "Sent (AppendReq_ProposedMessage (toProposedMessage operation event))"
  show ?case
  proof (cases "Send operation k")
    case None
    obtain n where "snd (sendEvents client operation handle (Suc k) events (sent @ [?frame])) =
        (sent @ [?frame]) @ take n (proposed operation events)"
      using Cons.IH by blast
    then have "snd (sendEvents client operation handle k (event # events) sent) =
        sent @ take (Suc n) (proposed operation (event # events))"
      using None by (simp add: proposed_def)
    then show ?thesis by blast
  next
    case (Some err)
    then have "snd (sendEvents client operation handle k (event # events) sent) =
        sent @ take 0 (proposed operation (event # events))"
      by simp
    then show ?thesis by blast
  qed
qed

lemma sendEvents_no_error:
  "fst (sendEvents client operation handle k events sent) = None \<Longrightarrow>
   snd (sendEvents client operation handle k events sent) = sent @ proposed operation events"
proof (induction events arbitrary: k sent)
  case Nil
  then show ?case by (simp add: proposed_def)
next
  case (Cons event events)
  then show ?case
    by (cases "Send operation k") (simp_all add: proposed_def)
qed

lemma AppendToStream_receives:
  assumes "receives client operation events response"
  shows "AppendToStream client operation streamID opts events =
     (appendResult (intSize operation) response,
      Sent (AppendReq_Options streamID (ExpectedRevision (setDefaults operation opts)))
        # proposed operation events @ [HalfClosed])"
proof -
  obtain handle where handle: "getConnectionHandle client = Inr handle"
    using assms by (cases "getConnectionHandle client") (simp_all add: receives_def)
  have sends: "\<forall>i < length events. Send operation (Suc 0 + i) = None"
    using assms by (simp add: receives_def)
  have first: "Send operation 0 = None"
    using assms by (simp add: receives_def)
  have loop: "sendEvents client operation handle (Suc 0) events sent =
      (None, sent @ proposed operation events)" for sent
    using sendEvents_all_sent [OF sends] .
  show ?thesis
    using assms handle first
    by (simp add: AppendToStream_def Let_def loop toAppendHeader_def receives_def)
qed

lemma AppendToStream_sent_prefix:
  "prefix (snd (AppendToStream client operation streamID opts events))
     (Sent (AppendReq_Options streamID (ExpectedRevision (setDefaults operation opts)))
        # proposed operation events @ [HalfClosed])"
proof (cases "getConnectionHandle client")
  case (Inl err)
  then show ?thesis by (simp add: AppendToStream_def)
next
  case (Inr handle)
  let ?header = "Sent (AppendReq_Options streamID (ExpectedRevision (setDefaults operation opts)))"
  let ?loop = "sendEvents client operation handle (Suc 0) events [?header]"
  show ?thesis
  proof (cases "Append operation = None \<and> Send operation 0 = None")
    case False
    then show ?thesis
      using Inr by (auto simp: AppendToStream_def Let_def split: option.split)
  next
    case True
    show ?thesis
    proof (cases "fst ?loop")
      case None
      then have "snd ?loop = [?header] @ proposed operation events"
        by (rule sendEvents_no_error)
      then have "?loop = (None, ?header # proposed operation events)"
        using None by (simp add: prod_eq_iff)
      then show ?thesis
        using Inr True
        by (simp add: AppendToStream_def Let_def toAppendHeader_def split: sum.split)
    next
      case (Some err)
      obtain n where "snd ?loop = [?header] @ take n (proposed operation events)"
        using sendEvents_sent_some by blast
      then have loop: "?loop = (Some err, ?header # take n (proposed operation events))"
        using Some by (simp add: prod_eq_iff)
      have "prefix (take n (proposed operation events)) (proposed operation events @ [HalfClosed])"
        by (simp add: prefix_prefix take_is_prefix)
      then show ?thesis
        using Inr True loop
        by (simp add: AppendToStream_def Let_def toAppendHeader_def)
    qed
  qed
qed

lemma sendEvents_first_failure:
  assumes "m < length events"
    and "\<forall>j < m. Send operation (k + j) = None"
    and "Send operation (k + m) = Some err"
  shows "sendEvents client operation handle k events sent =
     (Some (Errorf ''could not send append request. Reason: ''
              (Some (handleError client handle err))),
      sent @ take m (proposed operation events))"
  using assms
proof (induction events arbitrary: k sent m)
  case Nil
  then show ?case by simp
next
  case (Cons event events)
  show ?case
  proof (cases m)
    case 0
    then show ?thesis
      using Cons.prems(3) by (simp add: proposed_def)
  next
    case (Suc n)
    have head: "Send operation k = None"
      using Cons.prems(2) [rule_format, of 0] Suc by simp
    have shorter: "n < length events"
      using Cons.prems(1) Suc by simp
    have before: "\<forall>j < n. Send operation (Suc k + j) = None"
      using Cons.prems(2) [rule_format, of "Suc j" for j] Suc by simp
    have failing: "Send operation (Suc k + n) = Some err"
      using Cons.prems(3) Suc by simp
    show ?thesis
      using Cons.IH [OF shorter before failing] head Suc
      by (simp add: proposed_def)
  qed
qed

text \<open>
  C5, as amended. A call of \<open>AppendToStream\<close> sends the header frame with the stream id and
  the expected revision of the options after \<open>setDefaults\<close>, then the proposed-message
  frames of the events in the order of the event list, then half-closes with
  \<open>CloseAndRecv\<close> and returns the decoded response or the error of \<open>CloseAndRecv\<close>,
  provided the handle is obtained, the stream is opened and no \<open>Send\<close> returns an error.
  Otherwise the first failing step ends the call: it returns the error of that step, has
  sent exactly the frames before that step and has not half-closed.
\<close>

theorem AppendToStream_frames:
  "(\<forall>err. getConnectionHandle client = Inl err \<longrightarrow>
      AppendToStream client operation streamID opts events = (Inl err, []))
   \<and> (\<forall>handle err. getConnectionHandle client = Inr handle \<and> Append operation = Some err \<longrightarrow>
      AppendToStream client operation streamID opts events =
        (Inl (Errorf ''could not construct append operation. Reason: ''
                (Some (handleError client handle err))), []))
   \<and> (\<forall>handle err. getConnectionHandle client = Inr handle \<and> Append operation = None
        \<and> Send operation 0 = Some err \<longrightarrow>
      AppendToStream client operation streamID opts events =
        (Inl (Errorf ''could not send append request header. Reason: ''
                (Some (handleError client handle err))), []))
   \<and> (\<forall>handle k err. getConnectionHandle client = Inr handle \<and> Append operation = None
        \<and> 0 < k \<and> k \<le> length events \<and> (\<forall>i < k. Send operation i = None)
        \<and> Send operation k = Some err \<longrightarrow>
      AppendToStream client operation streamID opts events =
        (Inl (Errorf ''could not send append request. Reason: ''
                (Some (handleError client handle err))),
         Sent (AppendReq_Options streamID (ExpectedRevision (setDefaults operation opts)))
           # take (k - 1)
               (map (\<lambda>event. Sent (AppendReq_ProposedMessage (toProposedMessage operation event)))
                  events)))
   \<and> (\<forall>handle. getConnectionHandle client = Inr handle \<and> Append operation = None
        \<and> (\<forall>k \<le> length events. Send operation k = None) \<longrightarrow>
      AppendToStream client operation streamID opts events =
        ((case CloseAndRecv operation of
            Inl err \<Rightarrow> Inl (handleError client handle err)
          | Inr response \<Rightarrow> appendResult (intSize operation) response),
         Sent (AppendReq_Options streamID (ExpectedRevision (setDefaults operation opts)))
           # map (\<lambda>event. Sent (AppendReq_ProposedMessage (toProposedMessage operation event)))
               events
           @ [HalfClosed]))"
proof (intro conjI allI impI)
  fix err
  assume "getConnectionHandle client = Inl err"
  then show "AppendToStream client operation streamID opts events = (Inl err, [])"
    by (simp add: AppendToStream_def)
next
  fix handle err
  assume "getConnectionHandle client = Inr handle \<and> Append operation = Some err"
  then show "AppendToStream client operation streamID opts events =
      (Inl (Errorf ''could not construct append operation. Reason: ''
              (Some (handleError client handle err))), [])"
    by (simp add: AppendToStream_def)
next
  fix handle err
  assume "getConnectionHandle client = Inr handle \<and> Append operation = None
      \<and> Send operation 0 = Some err"
  then show "AppendToStream client operation streamID opts events =
      (Inl (Errorf ''could not send append request header. Reason: ''
              (Some (handleError client handle err))), [])"
    by (simp add: AppendToStream_def)
next
  fix handle k err
  assume run: "getConnectionHandle client = Inr handle \<and> Append operation = None
      \<and> 0 < k \<and> k \<le> length events \<and> (\<forall>i < k. Send operation i = None)
      \<and> Send operation k = Some err"
  then obtain m where m: "k = Suc m"
    by (cases k) simp_all
  have shorter: "m < length events"
    using run m by simp
  have before: "\<forall>j < m. Send operation (Suc 0 + j) = None"
    using run m by simp
  have failing: "Send operation (Suc 0 + m) = Some err"
    using run m by simp
  have first: "Send operation 0 = None"
    using run m by simp
  have loop: "sendEvents client operation handle (Suc 0) events sent =
      (Some (Errorf ''could not send append request. Reason: ''
               (Some (handleError client handle err))),
       sent @ take m (proposed operation events))" for sent
    using sendEvents_first_failure [OF shorter before failing] .
  show "AppendToStream client operation streamID opts events =
      (Inl (Errorf ''could not send append request. Reason: ''
              (Some (handleError client handle err))),
       Sent (AppendReq_Options streamID (ExpectedRevision (setDefaults operation opts)))
         # take (k - 1)
             (map (\<lambda>event. Sent (AppendReq_ProposedMessage (toProposedMessage operation event)))
                events))"
    using run first m
    by (simp add: AppendToStream_def Let_def loop toAppendHeader_def proposed_def)
next
  fix handle
  assume run: "getConnectionHandle client = Inr handle \<and> Append operation = None
      \<and> (\<forall>k \<le> length events. Send operation k = None)"
  have sends: "\<forall>i < length events. Send operation (Suc 0 + i) = None"
    using run by simp
  have loop: "sendEvents client operation handle (Suc 0) events sent =
      (None, sent @ proposed operation events)" for sent
    using sendEvents_all_sent [OF sends] .
  have first: "Send operation 0 = None"
    using run by simp
  show "AppendToStream client operation streamID opts events =
      ((case CloseAndRecv operation of
          Inl err \<Rightarrow> Inl (handleError client handle err)
        | Inr response \<Rightarrow> appendResult (intSize operation) response),
       Sent (AppendReq_Options streamID (ExpectedRevision (setDefaults operation opts)))
         # map (\<lambda>event. Sent (AppendReq_ProposedMessage (toProposedMessage operation event)))
             events
         @ [HalfClosed])"
    using run first
    by (simp add: AppendToStream_def Let_def loop toAppendHeader_def proposed_def
        split: sum.split)
qed

theorem AppendToStream_frames_witness:
  "AppendToStream (exampleClient {})
     (exampleOperation (\<lambda>k. None) (AppendResp None))
     ''s'' \<lparr>ExpectedRevision = Any\<rparr> [exampleEvent ''a'', exampleEvent ''b'']
   = (Inr \<lparr>CommitPosition = 0, PreparePosition = 0, NextExpectedVersion = 1\<rparr>,
      [Sent (AppendReq_Options ''s'' Any),
       Sent (AppendReq_ProposedMessage (exampleEvent ''a'')),
       Sent (AppendReq_ProposedMessage (exampleEvent ''b'')),
       HalfClosed])
   \<and> AppendToStream (exampleClient {})
     (exampleOperation (\<lambda>k. if k = 2 then Some (Foreign ''unavailable'') else None)
        (AppendResp None))
     ''s'' \<lparr>ExpectedRevision = Any\<rparr> [exampleEvent ''a'', exampleEvent ''b'']
   = (Inl (Errorf ''could not send append request. Reason: '' (Some (Foreign ''unavailable''))),
      [Sent (AppendReq_Options ''s'' Any), Sent (AppendReq_ProposedMessage (exampleEvent ''a''))])"
proof -
  let ?client = "exampleClient {}"
  let ?good = "exampleOperation (\<lambda>k. None) (AppendResp None)"
  let ?bad = "exampleOperation (\<lambda>k. if k = 2 then Some (Foreign ''unavailable'') else None)
      (AppendResp None)"
  let ?events = "[exampleEvent ''a'', exampleEvent ''b'']"
  have handle: "getConnectionHandle ?client = Inr \<lparr>features = {}\<rparr>"
    by (simp add: exampleClient_def)
  have good: "getConnectionHandle ?client = Inr \<lparr>features = {}\<rparr> \<and> Append ?good = None
      \<and> (\<forall>k \<le> length ?events. Send ?good k = None)"
    using handle by (simp add: exampleOperation_def)
  have bad: "getConnectionHandle ?client = Inr \<lparr>features = {}\<rparr> \<and> Append ?bad = None
      \<and> 0 < (2::nat) \<and> 2 \<le> length ?events \<and> (\<forall>i < 2. Send ?bad i = None)
      \<and> Send ?bad 2 = Some (Foreign ''unavailable'')"
    using handle by (simp add: exampleOperation_def)
  note frames = AppendToStream_frames [of ?client _ "''s''" "\<lparr>ExpectedRevision = Any\<rparr>" ?events]
  have first: "AppendToStream ?client ?good ''s'' \<lparr>ExpectedRevision = Any\<rparr> ?events =
      ((case CloseAndRecv ?good of
          Inl err \<Rightarrow> Inl (handleError ?client \<lparr>features = {}\<rparr> err)
        | Inr response \<Rightarrow> appendResult (intSize ?good) response),
       Sent (AppendReq_Options ''s'' (ExpectedRevision (setDefaults ?good \<lparr>ExpectedRevision = Any\<rparr>)))
         # map (\<lambda>event. Sent (AppendReq_ProposedMessage (toProposedMessage ?good event))) ?events
         @ [HalfClosed])"
    using frames [of ?good, THEN conjunct2, THEN conjunct2, THEN conjunct2, THEN conjunct2,
        rule_format, OF good] .
  have second: "AppendToStream ?client ?bad ''s'' \<lparr>ExpectedRevision = Any\<rparr> ?events =
      (Inl (Errorf ''could not send append request. Reason: ''
              (Some (handleError ?client \<lparr>features = {}\<rparr> (Foreign ''unavailable'')))),
       Sent (AppendReq_Options ''s'' (ExpectedRevision (setDefaults ?bad \<lparr>ExpectedRevision = Any\<rparr>)))
         # take (2 - 1)
             (map (\<lambda>event. Sent (AppendReq_ProposedMessage (toProposedMessage ?bad event)))
                ?events))"
    using frames [of ?bad, THEN conjunct2, THEN conjunct2, THEN conjunct2, THEN conjunct1,
        rule_format, OF bad] .
  show ?thesis
    using first second
    by (simp add: exampleClient_def exampleOperation_def appendResult_def)
qed

theorem AppendToStream_frames_counterexample:
  "AppendToStream (exampleClient {})
     (exampleOperation (\<lambda>k. if k = 2 then Some (Foreign ''unavailable'') else None)
        (AppendResp None))
     ''s'' \<lparr>ExpectedRevision = Any\<rparr> [exampleEvent ''a'', exampleEvent ''b'']
   = (Inl (Errorf ''could not send append request. Reason: '' (Some (Foreign ''unavailable''))),
      [Sent (AppendReq_Options ''s'' Any), Sent (AppendReq_ProposedMessage (exampleEvent ''a''))])"
  by (simp add: AppendToStream_def exampleClient_def exampleOperation_def toAppendHeader_def)

subsection \<open>The decoding of the response\<close>





lemma appendResult_NoStream_with_position:
  "appendResult bits (AppendResp (Some (AppendResp_Success_Result
      (AppendResp_Success (Some AppendResp_Success_NoStream)
         (Some (AppendResp_Success_Position position)))))) =
   Inr \<lparr>CommitPosition = AppendResp_Position.CommitPosition position,
        PreparePosition = AppendResp_Position.PreparePosition position,
        NextExpectedVersion = 1\<rparr>"
  by (simp add: appendResult_def)

lemma appendResult_without_position:
  "(\<forall>position. GetPositionOption success \<noteq> Some (AppendResp_Success_Position position)) \<Longrightarrow>
   appendResult bits (AppendResp (Some (AppendResp_Success_Result success))) =
   Inr \<lparr>CommitPosition = 0, PreparePosition = 0,
        NextExpectedVersion = GetCurrentRevision success\<rparr>"
  by (auto simp: appendResult_def Let_def
      split: option.split AppendResp_Success_PositionOption.split)

text \<open>
  C1, at the input on which the code leaves the claim: a success response with the
  \<open>NoStream\<close> marker and no position. The assignment of line 108, in the branch of a
  missing position, replaces the 1 of line 97 by \<open>GetCurrentRevision()\<close>, which is 0 for
  the \<open>NoStream\<close> variant.
\<close>

theorem AppendToStream_NoStream_without_position:
  "fst (AppendToStream (exampleClient {})
          (exampleOperation (\<lambda>k. None)
             (AppendResp (Some (AppendResp_Success_Result
                (AppendResp_Success (Some AppendResp_Success_NoStream)
                   (Some AppendResp_Success_NoPosition))))))
          ''s'' \<lparr>ExpectedRevision = NoStream\<rparr> [exampleEvent ''a'']) =
   Inr \<lparr>CommitPosition = 0, PreparePosition = 0, NextExpectedVersion = 0\<rparr>"
  by (simp add: AppendToStream_def exampleClient_def exampleOperation_def toAppendHeader_def
      appendResult_def GetCurrentRevision_def)

text \<open>
  C2, as amended. When the response that \<open>AppendToStream\<close> decodes is a success that carries
  neither a current-revision option nor a position option, the result has the commit
  position 0, the prepare position 0 and the next expected version 0.
\<close>

theorem AppendToStream_bare_success:
  assumes "receives client operation events
     (AppendResp (Some (AppendResp_Success_Result (AppendResp_Success None None))))"
  shows "fst (AppendToStream client operation streamID opts events) =
     Inr \<lparr>CommitPosition = 0, PreparePosition = 0, NextExpectedVersion = 0\<rparr>"
  using AppendToStream_receives [OF assms]
  by (simp add: appendResult_def GetCurrentRevision_def)

theorem AppendToStream_bare_success_witness:
  "receives (exampleClient {})
     (exampleOperation (\<lambda>k. None)
        (AppendResp (Some (AppendResp_Success_Result (AppendResp_Success None None)))))
     [exampleEvent ''a'']
     (AppendResp (Some (AppendResp_Success_Result (AppendResp_Success None None))))
   \<and> fst (AppendToStream (exampleClient {})
        (exampleOperation (\<lambda>k. None)
           (AppendResp (Some (AppendResp_Success_Result (AppendResp_Success None None)))))
        ''s'' \<lparr>ExpectedRevision = Any\<rparr> [exampleEvent ''a'']) =
     Inr \<lparr>CommitPosition = 0, PreparePosition = 0, NextExpectedVersion = 0\<rparr>"
proof -
  have run: "receives (exampleClient {})
     (exampleOperation (\<lambda>k. None)
        (AppendResp (Some (AppendResp_Success_Result (AppendResp_Success None None)))))
     [exampleEvent ''a'']
     (AppendResp (Some (AppendResp_Success_Result (AppendResp_Success None None))))"
    by (simp add: receives_def exampleClient_def exampleOperation_def)
  show ?thesis
    using run AppendToStream_bare_success [OF run] by simp
qed

theorem AppendToStream_bare_success_counterexample:
  "fst (AppendToStream (exampleClient {})
          (exampleOperation (\<lambda>k. None)
             (AppendResp (Some (AppendResp_Success_Result (AppendResp_Success None None)))))
          ''s'' \<lparr>ExpectedRevision = Any\<rparr> [exampleEvent ''a'']) =
     Inr \<lparr>CommitPosition = 0, PreparePosition = 0, NextExpectedVersion = 0\<rparr>
   \<and> (0 :: uint64) \<noteq> 1"
  by (simp add: AppendToStream_def exampleClient_def exampleOperation_def toAppendHeader_def
      appendResult_def GetCurrentRevision_def)




text \<open>
  C8. When the response that \<open>AppendToStream\<close> decodes has a result that is neither the
  success variant nor the wrong-expected-version variant, the call returns no error and a
  result with the commit position 0, the prepare position 0 and the next expected
  version 1.
\<close>

theorem AppendToStream_unrecognized_result:
  assumes "receives client operation events response"
    and "\<forall>success. GetResult response \<noteq> Some (AppendResp_Success_Result success)"
    and "\<forall>wrong. GetResult response \<noteq> Some (AppendResp_WrongExpectedVersion_Result wrong)"
  shows "fst (AppendToStream client operation streamID opts events) =
     Inr \<lparr>CommitPosition = 0, PreparePosition = 0, NextExpectedVersion = 1\<rparr>"
proof -
  have "GetResult response = None"
  proof (cases "GetResult response")
    case None
    then show ?thesis .
  next
    case (Some result)
    then show ?thesis
      using assms(2,3) by (cases result) simp_all
  qed
  then have "appendResult (intSize operation) response =
      Inr \<lparr>CommitPosition = 0, PreparePosition = 0, NextExpectedVersion = 1\<rparr>"
    by (simp add: appendResult_def)
  then show ?thesis
    using AppendToStream_receives [OF assms(1)] by simp
qed

theorem AppendToStream_unrecognized_result_witness:
  "receives (exampleClient {}) (exampleOperation (\<lambda>k. None) (AppendResp None))
     [exampleEvent ''a''] (AppendResp None)
   \<and> (\<forall>success. GetResult (AppendResp None) \<noteq> Some (AppendResp_Success_Result success))
   \<and> (\<forall>wrong. GetResult (AppendResp None) \<noteq> Some (AppendResp_WrongExpectedVersion_Result wrong))
   \<and> fst (AppendToStream (exampleClient {}) (exampleOperation (\<lambda>k. None) (AppendResp None))
        ''s'' \<lparr>ExpectedRevision = Any\<rparr> [exampleEvent ''a'']) =
     Inr \<lparr>CommitPosition = 0, PreparePosition = 0, NextExpectedVersion = 1\<rparr>"
proof -
  have run: "receives (exampleClient {}) (exampleOperation (\<lambda>k. None) (AppendResp None))
     [exampleEvent ''a''] (AppendResp None)"
    by (simp add: receives_def exampleClient_def exampleOperation_def)
  have no_success:
    "\<forall>success. GetResult (AppendResp None) \<noteq> Some (AppendResp_Success_Result success)"
    by simp
  have no_wrong:
    "\<forall>wrong. GetResult (AppendResp None) \<noteq> Some (AppendResp_WrongExpectedVersion_Result wrong)"
    by simp
  show ?thesis
    using run AppendToStream_unrecognized_result [OF run no_success no_wrong] by simp
qed

section \<open>Properties of the persistent-subscription operations\<close>

subsection \<open>The gate of the operations on \<open>$all\<close>\<close>

lemma ToAll_operations_gated:
  assumes "getConnectionHandle client = Inr handle"
    and "\<not> SupportsFeature handle featurePersistentSubscriptionToAll"
  shows "SubscribeToPersistentSubscriptionToAll client defaults groupName subscribeOptions =
           Return unsupportedFeatureError"
    and "CreatePersistentSubscriptionToAll client defaults groupName allOptions =
           Return unsupportedFeatureError"
    and "UpdatePersistentSubscriptionToAll client defaults groupName allOptions =
           Return unsupportedFeatureError"
    and "DeletePersistentSubscriptionToAll client groupName deleteOptions =
           Return unsupportedFeatureError"
    and "ListPersistentSubscriptionsToAll client listOptions = Return unsupportedFeatureError"
    and "ReplayParkedMessagesToAll client groupName replayOptions =
           Return unsupportedFeatureError"
    and "GetPersistentSubscriptionInfo client ''$all'' groupName infoOptions =
           Return unsupportedFeatureError"
  using assms
  by (simp_all add: SubscribeToPersistentSubscriptionToAll_def
      CreatePersistentSubscriptionToAll_def UpdatePersistentSubscriptionToAll_def
      DeletePersistentSubscriptionToAll_def ListPersistentSubscriptionsToAll_def
      listPersistentSubscriptionsInternal_def ReplayParkedMessagesToAll_def
      replayParkedMessages_def GetPersistentSubscriptionInfo_def
      getPersistentSubscriptionInfoInternal_def Let_def)

text \<open>
  C3, at the input on which the code leaves the claim: \<open>GetPersistentSubscriptionInfoToAll\<close>
  on a handle without \<open>featurePersistentSubscriptionToAll\<close>. The operation passes a nil
  stream name, the gate of \<open>getPersistentSubscriptionInfoInternal\<close> asks for a stream name
  that is not nil and equal to \<open>$all\<close>, so the call is made: over HTTP for a handle with no
  feature, over gRPC for a handle with the management feature only.
\<close>

theorem GetPersistentSubscriptionInfoToAll_not_gated:
  "GetPersistentSubscriptionInfoToAll (exampleClient {}) ''g'' () =
     Invoke (httpGetPersistentSubscriptionInfo ''$all'' ''g'' ())
   \<and> GetPersistentSubscriptionInfoToAll
       (exampleClient {featurePersistentSubscriptionManagement}) ''g'' () =
     Invoke (persistentClient_getPersistentSubscriptionInfo None ''g'' ())"
  by (simp add: GetPersistentSubscriptionInfoToAll_def getPersistentSubscriptionInfoInternal_def
      exampleClient_def SupportsFeature_def)

subsection \<open>The path of the management operations\<close>

text \<open>
  C7. When the handle is obtained, each management operation is dispatched over gRPC if
  the handle supports \<open>featurePersistentSubscriptionManagement\<close> and over HTTP otherwise,
  and the path is a function of the feature set of the handle alone. This is stated for
  the operations that the requirement on \<open>$all\<close> leaves to the choice of a path: every
  operation on a handle with \<open>featurePersistentSubscriptionToAll\<close>, and on a handle without
  it the operations that are not on \<open>$all\<close>: the replay for a stream name other than
  \<open>$all\<close>, the list for no stream name or one other than \<open>$all\<close>, the info for a stream
  name that is given and other than \<open>$all\<close>, and the restart.
\<close>

theorem management_dispatch:
  assumes "getConnectionHandle client = Inr handle"
  shows "(streamName \<noteq> ''$all'' \<or> SupportsFeature handle featurePersistentSubscriptionToAll \<longrightarrow>
            dispatched (replayParkedMessages client streamName groupName replayOptions) =
              Some (if featurePersistentSubscriptionManagement \<in> features handle
                    then GRPC else HTTP))
       \<and> (optionalName \<noteq> Some ''$all'' \<or> SupportsFeature handle featurePersistentSubscriptionToAll \<longrightarrow>
            dispatched (listPersistentSubscriptionsInternal client optionalName listOptions) =
              Some (if featurePersistentSubscriptionManagement \<in> features handle
                    then GRPC else HTTP))
       \<and> (optionalName \<noteq> None \<and> optionalName \<noteq> Some ''$all''
            \<or> SupportsFeature handle featurePersistentSubscriptionToAll \<longrightarrow>
            dispatched (getPersistentSubscriptionInfoInternal client optionalName groupName
                          infoOptions) =
              Some (if featurePersistentSubscriptionManagement \<in> features handle
                    then GRPC else HTTP))
       \<and> dispatched (RestartPersistentSubscriptionSubsystem client restartOptions) =
            Some (if featurePersistentSubscriptionManagement \<in> features handle
                  then GRPC else HTTP)"
proof (intro conjI impI)
  assume "streamName \<noteq> ''$all'' \<or> SupportsFeature handle featurePersistentSubscriptionToAll"
  then show "dispatched (replayParkedMessages client streamName groupName replayOptions) =
      Some (if featurePersistentSubscriptionManagement \<in> features handle then GRPC else HTTP)"
    using assms by (auto simp: replayParkedMessages_def SupportsFeature_def Let_def)
next
  assume "optionalName \<noteq> Some ''$all''
      \<or> SupportsFeature handle featurePersistentSubscriptionToAll"
  then show "dispatched (listPersistentSubscriptionsInternal client optionalName listOptions) =
      Some (if featurePersistentSubscriptionManagement \<in> features handle then GRPC else HTTP)"
    using assms
    by (auto simp: listPersistentSubscriptionsInternal_def SupportsFeature_def
        split: option.split)
next
  assume "optionalName \<noteq> None \<and> optionalName \<noteq> Some ''$all''
      \<or> SupportsFeature handle featurePersistentSubscriptionToAll"
  then show "dispatched (getPersistentSubscriptionInfoInternal client optionalName groupName
      infoOptions) =
      Some (if featurePersistentSubscriptionManagement \<in> features handle then GRPC else HTTP)"
    using assms
    by (auto simp: getPersistentSubscriptionInfoInternal_def SupportsFeature_def Let_def)
next
  show "dispatched (RestartPersistentSubscriptionSubsystem client restartOptions) =
      Some (if featurePersistentSubscriptionManagement \<in> features handle then GRPC else HTTP)"
    using assms
    by (simp add: RestartPersistentSubscriptionSubsystem_def SupportsFeature_def)
qed

theorem management_dispatch_witness:
  "dispatched (replayParkedMessages (exampleClient {}) ''s'' ''g'' ()) = Some HTTP
   \<and> dispatched (listPersistentSubscriptionsInternal (exampleClient {}) (Some ''s'') ()) = Some HTTP
   \<and> dispatched (getPersistentSubscriptionInfoInternal (exampleClient {}) (Some ''s'') ''g'' ())
       = Some HTTP
   \<and> dispatched (RestartPersistentSubscriptionSubsystem (exampleClient {}) ()) = Some HTTP
   \<and> dispatched (replayParkedMessages
        (exampleClient {featurePersistentSubscriptionToAll,
                        featurePersistentSubscriptionManagement}) ''$all'' ''g'' ()) = Some GRPC
   \<and> dispatched (listPersistentSubscriptionsInternal
        (exampleClient {featurePersistentSubscriptionToAll,
                        featurePersistentSubscriptionManagement}) (Some ''$all'') ()) = Some GRPC
   \<and> dispatched (getPersistentSubscriptionInfoInternal
        (exampleClient {featurePersistentSubscriptionToAll,
                        featurePersistentSubscriptionManagement}) None ''g'' ()) = Some GRPC
   \<and> dispatched (RestartPersistentSubscriptionSubsystem
        (exampleClient {featurePersistentSubscriptionToAll,
                        featurePersistentSubscriptionManagement}) ()) = Some GRPC"
proof -
  let ?all = "{featurePersistentSubscriptionToAll, featurePersistentSubscriptionManagement}"
  have old: "getConnectionHandle (exampleClient {}) = Inr \<lparr>features = {}\<rparr>"
    by (simp add: exampleClient_def)
  have new: "getConnectionHandle (exampleClient ?all) = Inr \<lparr>features = ?all\<rparr>"
    by (simp add: exampleClient_def)
  show ?thesis
    using management_dispatch [OF old, of "''s''" "''g''" "()" "Some ''s''" "()" "()" "()"]
      management_dispatch [OF new, of "''$all''" "''g''" "()" "Some ''$all''" "()" "()" "()"]
      management_dispatch [OF new, of "''$all''" "''g''" "()" None "()" "()" "()"]
    by (simp add: SupportsFeature_def)
qed

subsection \<open>Settings that are nil\<close>

text \<open>
  C9. On options whose settings are nil after \<open>setDefaults\<close>, \<open>CreatePersistentSubscription\<close>,
  \<open>CreatePersistentSubscriptionToAll\<close> and \<open>UpdatePersistentSubscription\<close> put the default
  settings in their place and make their call with them, and
  \<open>UpdatePersistentSubscriptionToAll\<close>, which dereferences the settings as they are, ends in
  the panic of a nil pointer. The two operations on a stream do so on every handle, the two
  on \<open>$all\<close> on every handle that passes their test of
  \<open>featurePersistentSubscriptionToAll\<close>.
\<close>

theorem nil_Settings:
  assumes "getConnectionHandle client = Inr handle"
  shows "(Settings (setDefaultsStream defaults streamOptions) = None \<longrightarrow>
          CreatePersistentSubscription client defaults streamName groupName streamOptions =
            Invoke (persistentClient_CreateStreamSubscription
              ((setDefaultsStream defaults streamOptions)
                 \<lparr>Settings := Some (SubscriptionSettingsDefault defaults)\<rparr>)
              streamName groupName
              (StartFrom (setDefaultsStream defaults streamOptions))
              (SubscriptionSettingsDefault defaults))
          \<and> UpdatePersistentSubscription client defaults streamName groupName streamOptions =
            Invoke (persistentClient_UpdateStreamSubscription
              ((setDefaultsStream defaults streamOptions)
                 \<lparr>Settings := Some (SubscriptionSettingsDefault defaults)\<rparr>)
              streamName groupName
              (StartFrom (setDefaultsStream defaults streamOptions))
              (SubscriptionSettingsDefault defaults)))
       \<and> (SupportsFeature handle featurePersistentSubscriptionToAll
            \<and> Settings (setDefaultsAll defaults allOptions) = None \<longrightarrow>
          CreatePersistentSubscriptionToAll client defaults groupName allOptions =
            Invoke (persistentClient_CreateAllSubscription
              ((setDefaultsAll defaults allOptions)
                 \<lparr>Settings := Some (SubscriptionSettingsDefault defaults)\<rparr>)
              groupName
              (StartFrom (setDefaultsAll defaults allOptions))
              (SubscriptionSettingsDefault defaults)
              (case Filter (setDefaultsAll defaults allOptions) of
                 None \<Rightarrow> None
               | Some f \<Rightarrow>
                   Some (SubscriptionFilterOptions
                           (MaxSearchWindow (setDefaultsAll defaults allOptions)) 0 f)))
          \<and> UpdatePersistentSubscriptionToAll client defaults groupName allOptions =
            NilPointerDereference)"
  using assms
  by (simp add: CreatePersistentSubscription_def UpdatePersistentSubscription_def
      CreatePersistentSubscriptionToAll_def UpdatePersistentSubscriptionToAll_def Let_def)

theorem nil_Settings_witness:
  "CreatePersistentSubscription (exampleClient {}) exampleDefaults ''s'' ''g''
        \<lparr>Settings = None, StartFrom = 0\<rparr> =
      Invoke (persistentClient_CreateStreamSubscription
        \<lparr>Settings = Some 7, StartFrom = 0\<rparr> ''s'' ''g'' 0 7)
   \<and> UpdatePersistentSubscription (exampleClient {}) exampleDefaults ''s'' ''g''
        \<lparr>Settings = None, StartFrom = 0\<rparr> =
      Invoke (persistentClient_UpdateStreamSubscription
        \<lparr>Settings = Some 7, StartFrom = 0\<rparr> ''s'' ''g'' 0 7)
   \<and> CreatePersistentSubscriptionToAll (exampleClient {featurePersistentSubscriptionToAll})
        exampleDefaults ''g''
        \<lparr>Settings = None, StartFrom = 0, Filter = None, MaxSearchWindow = 32\<rparr> =
      Invoke (persistentClient_CreateAllSubscription
        \<lparr>Settings = Some 7, StartFrom = 0, Filter = None, MaxSearchWindow = 32\<rparr>
        ''g'' 0 7 None)
   \<and> UpdatePersistentSubscriptionToAll (exampleClient {featurePersistentSubscriptionToAll})
        exampleDefaults ''g''
        \<lparr>Settings = None, StartFrom = 0, Filter = None, MaxSearchWindow = 32\<rparr> =
      NilPointerDereference"
proof -
  let ?handle = "\<lparr>features = {featurePersistentSubscriptionToAll}\<rparr>"
  have plain: "getConnectionHandle (exampleClient {}) = Inr \<lparr>features = {}\<rparr>"
    by (simp add: exampleClient_def)
  have handle: "getConnectionHandle (exampleClient {featurePersistentSubscriptionToAll}) =
      Inr ?handle"
    by (simp add: exampleClient_def)
  show ?thesis
    using nil_Settings [OF plain, of exampleDefaults "\<lparr>Settings = None, StartFrom = 0\<rparr>"
        "''s''" "''g''"
        "\<lparr>Settings = None, StartFrom = 0, Filter = None, MaxSearchWindow = 32\<rparr>"]
      nil_Settings [OF handle, of exampleDefaults "\<lparr>Settings = None, StartFrom = 0\<rparr>"
        "''s''" "''g''"
        "\<lparr>Settings = None, StartFrom = 0, Filter = None, MaxSearchWindow = 32\<rparr>"]
    by (simp add: exampleDefaults_def SupportsFeature_def)
qed

lemma given_Settings:
  assumes "getConnectionHandle client = Inr handle"
  shows "Settings (setDefaultsStream defaults streamOptions) = Some settings \<Longrightarrow>
          CreatePersistentSubscription client defaults streamName groupName streamOptions =
            Invoke (persistentClient_CreateStreamSubscription
              (setDefaultsStream defaults streamOptions) streamName groupName
              (StartFrom (setDefaultsStream defaults streamOptions)) settings)"
    and "Settings (setDefaultsStream defaults streamOptions) = Some settings \<Longrightarrow>
          UpdatePersistentSubscription client defaults streamName groupName streamOptions =
            Invoke (persistentClient_UpdateStreamSubscription
              (setDefaultsStream defaults streamOptions) streamName groupName
              (StartFrom (setDefaultsStream defaults streamOptions)) settings)"
    and "SupportsFeature handle featurePersistentSubscriptionToAll \<Longrightarrow>
         Settings (setDefaultsAll defaults allOptions) = Some settings \<Longrightarrow>
          UpdatePersistentSubscriptionToAll client defaults groupName allOptions =
            Invoke (persistentClient_UpdateAllSubscription
              (setDefaultsAll defaults allOptions) groupName
              (StartFrom (setDefaultsAll defaults allOptions)) settings)"
  using assms
  by (simp_all add: CreatePersistentSubscription_def UpdatePersistentSubscription_def
      UpdatePersistentSubscriptionToAll_def Let_def)

section \<open>Properties of the stream metadata operations\<close>

lemma SetStreamMetadata_appends:
  assumes "toMap encoder metadata = Inr props" and "Marshal encoder props = Inr data"
  shows "SetStreamMetadata client operation encoder streamID opts metadata =
     AppendToStream client operation (''$$'' @ streamID) opts
       [\<lparr>EventID = 0, EventType = ''$metadata'', ContentType = ContentTypeJson,
         Data = data, Metadata = []\<rparr>]"
  using assms
  by (simp add: SetStreamMetadata_def Let_def split: prod.split sum.split)

text \<open>
  C10. When the read of the metadata stream is opened and its first \<open>Recv\<close> returns
  \<open>io.EOF\<close>, or an error that wraps it, \<open>GetStreamMetadata\<close> returns the empty metadata and
  a nil error.
\<close>

theorem GetStreamMetadata_end_of_stream:
  assumes "ReadStream client operation (''$$'' @ streamID) opts 1 = Inr stream"
    and "snd (FromError operation None)"
    and "Recv operation (Some stream) = Inl err"
    and "errorsIs err EOF"
  shows "GetStreamMetadata client operation streamID opts = (Some emptyStreamMetadata, None)"
proof -
  obtain esdbErr where "FromError operation None = (esdbErr, True)"
    using assms(2) by (cases "FromError operation None") simp
  then show ?thesis
    using assms(1,3,4) by (simp add: GetStreamMetadata_def Let_def)
qed

theorem GetStreamMetadata_end_of_stream_witness:
  "ReadStream (exampleClient {}) (exampleRead (Inl EOF)) (''$$'' @ ''s'')
      \<lparr>Direction = 0, From = 0, ResolveLinkTos = False\<rparr> 1 =
     Inr (newReadStream \<lparr>features = {}\<rparr> (toReadStreamRequest ''$$s'' 0 0 1 False))
   \<and> snd (FromError (exampleRead (Inl EOF)) None)
   \<and> Recv (exampleRead (Inl EOF))
        (Some (newReadStream \<lparr>features = {}\<rparr> (toReadStreamRequest ''$$s'' 0 0 1 False))) = Inl EOF
   \<and> errorsIs EOF EOF
   \<and> GetStreamMetadata (exampleClient {}) (exampleRead (Inl EOF)) ''s''
        \<lparr>Direction = 0, From = 0, ResolveLinkTos = False\<rparr> =
      (Some emptyStreamMetadata, None)"
proof -
  let ?stream = "newReadStream \<lparr>features = {}\<rparr> (toReadStreamRequest ''$$s'' 0 0 1 False)"
  have opened: "ReadStream (exampleClient {}) (exampleRead (Inl EOF)) (''$$'' @ ''s'')
      \<lparr>Direction = 0, From = 0, ResolveLinkTos = False\<rparr> 1 = Inr ?stream"
    by (simp add: ReadStream_def readInternal_def exampleClient_def exampleRead_def)
  have ok: "snd (FromError (exampleRead (Inl EOF)) None)"
    by (simp add: exampleRead_def)
  have first: "Recv (exampleRead (Inl EOF)) (Some ?stream) = Inl EOF"
    by (simp add: exampleRead_def)
  have eof: "errorsIs EOF EOF"
    by simp
  show ?thesis
    using opened ok first eof GetStreamMetadata_end_of_stream [OF opened ok first eof]
    by simp
qed

end
